theory Spec2Isabelle
  imports Complex_Main
begin

section \<open>JavaScript values the runtime computes with\<close>

text \<open>
  A JavaScript number is an IEEE double. The runtime only compares numbers and tests them
  for truthiness, so a finite double is represented by the real number it denotes, next to
  the two infinities and NaN. \<open>Finite 0\<close> stands for both zeros: they are equal, falsy
  and compare alike.
\<close>

datatype number = Finite real | PosInfinity | NegInfinity | NaN

text \<open>\<^verbatim>\<open>a >= b\<close> on numbers: false as soon as one side is NaN.\<close>

fun ge :: "number \<Rightarrow> number \<Rightarrow> bool" where
  "ge NaN b = False"
| "ge a NaN = False"
| "ge PosInfinity b = True"
| "ge a NegInfinity = True"
| "ge (Finite a) (Finite b) = (b \<le> a)"
| "ge a b = False"

text \<open>\<^verbatim>\<open>a < b\<close> on numbers: false as soon as one side is NaN.\<close>

fun lt :: "number \<Rightarrow> number \<Rightarrow> bool" where
  "lt NaN b = False"
| "lt a NaN = False"
| "lt a b = (\<not> ge a b)"

text \<open>ToBoolean on a number: zero and NaN are falsy.\<close>

fun truthy_number :: "number \<Rightarrow> bool" where
  "truthy_number (Finite x) = (x \<noteq> 0)"
| "truthy_number NaN = False"
| "truthy_number n = True"

text \<open>\<^verbatim>\<open>s.startsWith(p)\<close>.\<close>

definition startsWith :: "string \<Rightarrow> string \<Rightarrow> bool" where
  "startsWith s p = (take (length p) s = p)"

text \<open>\<^verbatim>\<open>x ?? d\<close> on an optional value: the default when the value is absent.\<close>

fun nullish :: "'a option \<Rightarrow> 'a \<Rightarrow> 'a" where
  "nullish None d = d"
| "nullish (Some x) d = x"

text \<open>\<^verbatim>\<open>xs?.length\<close>: undefined when the array is absent.\<close>

fun optional_length :: "'a list option \<Rightarrow> nat option" where
  "optional_length None = None"
| "optional_length (Some xs) = Some (length xs)"

text \<open>\<^verbatim>\<open>!!n\<close> on an optional array length: undefined and 0 are falsy.\<close>

fun truthy_length :: "nat option \<Rightarrow> bool" where
  "truthy_length None = False"
| "truthy_length (Some n) = (n \<noteq> 0)"

text \<open>ToBoolean on an optional boolean, as in \<^verbatim>\<open>if (params.stream)\<close>.\<close>

fun truthy_bool :: "bool option \<Rightarrow> bool" where
  "truthy_bool None = False"
| "truthy_bool (Some b) = b"

text \<open>
  A thrown value. Everything the steps of \<^verbatim>\<open>chat\<close> raise is an error object (the
  client's API errors, a \<^verbatim>\<open>TypeError\<close> of the engine); the runtime reads its
  \<^verbatim>\<open>status\<close> only, which is \<open>None\<close> when the object has no such property or
  holds \<^verbatim>\<open>undefined\<close> there.
\<close>

datatype thrown = Thrown (status: "number option") (description: string)

text \<open>Sequencing inside a \<^verbatim>\<open>try\<close> block: the first throw ends the block.\<close>

fun bind_thrown :: "thrown + 'a \<Rightarrow> ('a \<Rightarrow> thrown + 'b) \<Rightarrow> thrown + 'b" where
  "bind_thrown (Inl e) f = Inl e"
| "bind_thrown (Inr x) f = f x"

section \<open>The vendor's chat completion and the canonical chunk\<close>

text \<open>
  The types of the \<^verbatim>\<open>openai\<close> package that \<^verbatim>\<open>transformResponseToStream\<close> reads
  (\<^verbatim>\<open>OpenAI.ChatCompletion\<close>) and builds (\<^verbatim>\<open>OpenAI.ChatCompletionChunk\<close>). A property
  that may be \<^verbatim>\<open>null\<close> or absent is an option.
\<close>

record ToolCallFunction =
  arguments :: string
  name :: string

record ChatCompletionMessageToolCall =
  function' :: ToolCallFunction
  id' :: string
  type :: string

record ChatCompletionMessage =
  content :: "string option"
  role :: string
  tool_calls :: "ChatCompletionMessageToolCall list option"

record 'l Choice =
  finish_reason :: string
  index :: nat
  logprobs :: "'l option"
  message :: ChatCompletionMessage

record 'l ChatCompletion =
  choices :: "'l Choice list"
  created :: int
  id' :: string
  model :: string
  object :: string
  system_fingerprint :: "string option"

record DeltaToolCall =
  function' :: ToolCallFunction
  id' :: string
  index :: nat
  type :: string

record Delta =
  content :: "string option"
  role :: string
  tool_calls :: "DeltaToolCall list option"

record 'l ChunkChoice =
  delta :: Delta
  finish_reason :: "string option"
  index :: nat
  logprobs :: "'l option"

record 'l ChatCompletionChunk =
  choices :: "'l ChunkChoice list"
  created :: int
  id' :: string
  model :: string
  object :: string
  system_fingerprint :: "string option"

text \<open>
  A \<^verbatim>\<open>ReadableStream\<close> with its default controller: the chunks enqueued so far and
  whether the stream has been closed. Enqueueing into, or closing, a closed stream throws
  a \<^verbatim>\<open>TypeError\<close>. \<^verbatim>\<open>new ReadableStream({ start })\<close> runs \<^verbatim>\<open>start\<close> on the
  fresh controller, and throws what \<^verbatim>\<open>start\<close> throws.
\<close>

record 'a ReadableStream =
  queue :: "'a list"
  closed :: bool

definition enqueue :: "'a \<Rightarrow> 'a ReadableStream \<Rightarrow> thrown + 'a ReadableStream" where
  "enqueue chunk controller =
     (if closed controller then Inl (Thrown None ''TypeError: the stream is closed'')
      else Inr (controller\<lparr>queue := queue controller @ [chunk]\<rparr>))"

definition close :: "'a ReadableStream \<Rightarrow> thrown + 'a ReadableStream" where
  "close controller =
     (if closed controller then Inl (Thrown None ''TypeError: the stream is closed'')
      else Inr (controller\<lparr>closed := True\<rparr>))"

definition new_ReadableStream ::
  "('a ReadableStream \<Rightarrow> thrown + 'a ReadableStream) \<Rightarrow> thrown + 'a ReadableStream" where
  "new_ReadableStream start = start \<lparr>queue = [], closed = False\<rparr>"

text \<open>
  The first chunk's entry for a choice: content, role and the tool calls, each with its
  position in the array, and \<^verbatim>\<open>finish_reason: null\<close>.
\<close>

definition first_chunk_choice :: "'l Choice \<Rightarrow> 'l ChunkChoice" where
  "first_chunk_choice choice =
     \<lparr>delta =
        \<lparr>content = ChatCompletionMessage.content (message choice),
         role = ChatCompletionMessage.role (message choice),
         tool_calls = map_option
           (map (\<lambda>(index, tool).
              \<lparr>function' = ChatCompletionMessageToolCall.function' tool,
               id' = ChatCompletionMessageToolCall.id' tool,
               index = index,
               type = ChatCompletionMessageToolCall.type tool\<rparr>) \<circ> enumerate 0)
           (ChatCompletionMessage.tool_calls (message choice))\<rparr>,
      finish_reason = None,
      index = Choice.index choice,
      logprobs = Choice.logprobs choice\<rparr>"

text \<open>The second chunk's entry for a choice, as the source writes it.\<close>

definition second_chunk_choice :: "'l Choice \<Rightarrow> 'l ChunkChoice" where
  "second_chunk_choice choice =
     \<lparr>delta =
        \<lparr>content = ChatCompletionMessage.content (message choice),
         role = ChatCompletionMessage.role (message choice),
         tool_calls = None\<rparr>,
      finish_reason = Some (Choice.finish_reason choice),
      index = Choice.index choice,
      logprobs = Choice.logprobs choice\<rparr>"

text \<open>\<^verbatim>\<open>LobeQwenAI.transformResponseToStream\<close>.\<close>

definition transformResponseToStream ::
  "'l ChatCompletion \<Rightarrow> thrown + 'l ChatCompletionChunk ReadableStream" where
  "transformResponseToStream data =
     new_ReadableStream (\<lambda>controller.
       let chunk =
         \<lparr>choices = map first_chunk_choice (ChatCompletion.choices data),
          created = ChatCompletion.created data,
          id' = ChatCompletion.id' data,
          model = ChatCompletion.model data,
          object = ''chat.completion.chunk'',
          system_fingerprint = None\<rparr>
       in bind_thrown (enqueue chunk controller) (\<lambda>controller.
          bind_thrown
            (enqueue
               \<lparr>choices = map second_chunk_choice (ChatCompletion.choices data),
                created = ChatCompletion.created data,
                id' = ChatCompletion.id' data,
                model = ChatCompletion.model data,
                object = ''chat.completion.chunk'',
                system_fingerprint = ChatCompletion.system_fingerprint data\<rparr>
               controller)
            close))"

section \<open>The request builder\<close>

text \<open>
  Modelled from the spec: the type \<^verbatim>\<open>ChatStreamPayload\<close> is declared in \<^verbatim>\<open>../types\<close>,
  outside the sources at hand. By the spec the canonical request has the messages, the
  model identifier, the sampling parameters (\<^verbatim>\<open>temperature\<close>, \<^verbatim>\<open>top_p\<close>, the presence
  and frequency penalties), optional tool declarations and a streaming flag; these are also
  the properties the builder reads or removes, and their types are the ones its uses of
  them require. Every further property of the object is carried in \<open>others\<close>. An
  optional property that is absent (reads as \<^verbatim>\<open>undefined\<close>) is \<open>None\<close>.
\<close>

record ('m, 't, 'o) ChatStreamPayload =
  frequency_penalty :: "number option"
  messages :: "'m list"
  model :: string
  presence_penalty :: "number option"
  stream :: "bool option"
  temperature :: "number option"
  tools :: "'t list option"
  top_p :: "number option"
  others :: 'o

text \<open>The vendor request: the payload's properties and \<^verbatim>\<open>result_format\<close>.\<close>

record ('m, 't, 'o) CompletionParams = "('m, 't, 'o) ChatStreamPayload" +
  result_format :: "string option"

text \<open>
  \<^verbatim>\<open>{ ...payload, result_format }\<close>: a copy of the payload's properties with one more.
\<close>

definition spread_with_result_format ::
  "('m, 't, 'o) ChatStreamPayload \<Rightarrow> string \<Rightarrow> ('m, 't, 'o) CompletionParams" where
  "spread_with_result_format payload fmt =
     ChatStreamPayload.extend payload (CompletionParams.fields (Some fmt))"

text \<open>
  lodash's \<^verbatim>\<open>omit(object, ...paths)\<close> on a vendor request: a copy from which each named
  property is removed in turn. A name that is no property of the object leaves it as it
  is. \<^verbatim>\<open>model\<close> and \<^verbatim>\<open>messages\<close> are always there in this record, so their names are
  not among those \<open>unset\<close> knows; the builder never passes them.
\<close>

definition unset ::
  "string \<Rightarrow> ('m, 't, 'o) CompletionParams \<Rightarrow> ('m, 't, 'o) CompletionParams" where
  "unset k obj =
     (if k = ''frequency_penalty'' then obj\<lparr>frequency_penalty := None\<rparr>
      else if k = ''presence_penalty'' then obj\<lparr>presence_penalty := None\<rparr>
      else if k = ''stream'' then obj\<lparr>stream := None\<rparr>
      else if k = ''temperature'' then obj\<lparr>temperature := None\<rparr>
      else if k = ''tools'' then obj\<lparr>tools := None\<rparr>
      else if k = ''top_p'' then obj\<lparr>top_p := None\<rparr>
      else if k = ''result_format'' then obj\<lparr>result_format := None\<rparr>
      else obj)"

fun omit ::
  "('m, 't, 'o) CompletionParams \<Rightarrow> string list \<Rightarrow> ('m, 't, 'o) CompletionParams" where
  "omit obj [] = obj"
| "omit obj (k # ks) = omit (unset k obj) ks"

text \<open>\<^verbatim>\<open>top_p && top_p >= 1 ? 0.999 : top_p\<close>.\<close>

fun normalize_top_p :: "number option \<Rightarrow> number option" where
  "normalize_top_p None = None"
| "normalize_top_p (Some n) =
     (if truthy_number n \<and> ge n (Finite 1) then Some (Finite 0.999) else Some n)"

text \<open>\<^verbatim>\<open>LobeQwenAI.buildCompletionParamsByModel\<close>.\<close>

definition buildCompletionParamsByModel ::
  "('m, 't, 'o) ChatStreamPayload \<Rightarrow> ('m, 't, 'o) CompletionParams" where
  "buildCompletionParamsByModel payload =
     (let isVisionModel = startsWith (model payload) ''qwen-vl'';
          params = (spread_with_result_format payload ''message'')
            \<lparr>messages := messages payload,
             stream := Some (if truthy_length (optional_length (tools payload)) then False
                             else nullish (stream payload) True),
             top_p := normalize_top_p (top_p payload)\<rparr>
      in if isVisionModel
         then omit params
                [''presence_penalty'', ''frequency_penalty'', ''temperature'',
                 ''result_format'', ''top_p'']
         else params)"

section \<open>The model catalog\<close>

text \<open>A provider card (\<^verbatim>\<open>ModelProviderCard\<close>), with the properties the card in the
  sources uses.\<close>

record ChatModelCard =
  enabled :: "bool option"
  id' :: string
  tokens :: int
  vision :: "bool option"

record ModelListOptions =
  showModelFetcher :: bool

record ModelProviderCard =
  chatModels :: "ChatModelCard list"
  checkModel :: string
  id' :: string
  modelList :: ModelListOptions
  name :: string

text \<open>The Stepfun card; its \<^verbatim>\<open>name\<close> is four CJK characters, here their UTF-8 bytes.\<close>

definition Stepfun :: ModelProviderCard where
  "Stepfun =
     \<lparr>chatModels =
        [\<lparr>enabled = Some True, id' = ''step-1-256k'', tokens = 32768, vision = None\<rparr>,
         \<lparr>enabled = Some True, id' = ''step-1-128k'', tokens = 32768, vision = None\<rparr>,
         \<lparr>enabled = Some True, id' = ''step-1-32k'', tokens = 32768, vision = None\<rparr>,
         \<lparr>enabled = Some True, id' = ''step-1v-32k'', tokens = 32768, vision = Some True\<rparr>,
         \<lparr>enabled = None, id' = ''step-1-8k'', tokens = 8192, vision = None\<rparr>],
      checkModel = ''step-1-8k'',
      id' = ''stepfun'',
      modelList = \<lparr>showModelFetcher = True\<rparr>,
      name = map char_of
        [0xE9, 0x98, 0xB6, 0xE8, 0xB7, 0x83, 0xE6, 0x98, 0x9F, 0xE8, 0xBE, 0xB0 :: nat]\<rparr>"

section \<open>Runtime errors\<close>

text \<open>
  Modelled from the spec: the error kinds (\<^verbatim>\<open>AgentRuntimeErrorType\<close>, declared in
  \<^verbatim>\<open>../error\<close>) and the provider ids (\<^verbatim>\<open>ModelProvider\<close>, declared in
  \<^verbatim>\<open>../types\<close>) are outside the sources at hand. By the spec the kinds are
  \<^verbatim>\<open>InvalidProviderAPIKey\<close>, \<^verbatim>\<open>ProviderBizError\<close> and finer vendor-specific ones;
  both types have the members the runtime names and one constructor for all the others.
\<close>

datatype AgentRuntimeErrorType = InvalidProviderAPIKey | ProviderBizError | OtherErrorType string

datatype ModelProvider = Qwen | OtherProvider string

record AgentRuntimeError =
  error :: "thrown option"
  errorType :: AgentRuntimeErrorType

record 'e ChatCompletionErrorPayload =
  endpoint :: string
  error :: 'e
  errorType :: AgentRuntimeErrorType
  provider :: ModelProvider

text \<open>
  Modelled from the spec: \<^verbatim>\<open>AgentRuntimeError.chat\<close> lives in
  \<^verbatim>\<open>../utils/createError\<close>, outside the sources at hand. By the spec a runtime error
  is a tagged value carrying the endpoint, the provider id and the original error payload,
  built once at the failure site: it is the payload \<^verbatim>\<open>chat\<close> is given.
\<close>

definition AgentRuntimeError_chat ::
  "'e ChatCompletionErrorPayload \<Rightarrow> 'e ChatCompletionErrorPayload" where
  "AgentRuntimeError_chat payload = payload"

text \<open>
  Modelled from the spec: \<^verbatim>\<open>AgentRuntimeError.createError\<close>, from the same module, builds
  the error of a failed construction from its kind and an optional original error.
\<close>

definition createError :: "AgentRuntimeErrorType \<Rightarrow> thrown option \<Rightarrow> AgentRuntimeError" where
  "createError kind err =
     \<lparr>AgentRuntimeError.error = err, AgentRuntimeError.errorType = kind\<rparr>"

section \<open>The provider runtime\<close>

definition DEFAULT_BASE_URL :: string where
  "DEFAULT_BASE_URL = ''https://dashscope.aliyuncs.com/compatible-mode/v1''"

text \<open>
  A property that holds a value, holds \<^verbatim>\<open>null\<close>, or is absent (\<^verbatim>\<open>undefined\<close>).
\<close>

datatype 'a nullable = Absent | Null | Given 'a

text \<open>
  The options of the constructor (\<^verbatim>\<open>ClientOptions\<close> of the \<^verbatim>\<open>openai\<close> package):
  the key (\<^verbatim>\<open>string | undefined\<close>), the base URL
  (\<^verbatim>\<open>string | null | undefined\<close>) and the rest, which the constructor passes on
  untouched.
\<close>

record 'x ClientOptions =
  apiKey :: "string option"
  baseURL :: "string nullable"
  res :: 'x

text \<open>
  The client of the \<^verbatim>\<open>openai\<close> package, as far as the runtime uses it. It is built
  from a key, a base URL that is a string or \<^verbatim>\<open>null\<close> (here \<open>None\<close>), and further
  options, and exposes its base URL: the one it was given, or the package's own endpoint
  when the given one is falsy (\<^verbatim>\<open>null\<close> or the empty string), as in
  \<^verbatim>\<open>baseURL || 'https://api.openai.com/v1'\<close>.
\<close>

definition OPENAI_BASE_URL :: string where
  "OPENAI_BASE_URL = ''https://api.openai.com/v1''"

record 'x OpenAI =
  apiKey :: string
  baseURL :: string
  rest :: 'x

definition new_OpenAI :: "string \<Rightarrow> string option \<Rightarrow> 'x \<Rightarrow> 'x OpenAI" where
  "new_OpenAI key url more_options =
     \<lparr>apiKey = key,
      baseURL = (case url of
                   None \<Rightarrow> OPENAI_BASE_URL
                 | Some given \<Rightarrow> if given = [] then OPENAI_BASE_URL else given),
      rest = more_options\<rparr>"

record 'x LobeQwenAI =
  client :: "'x OpenAI"
  baseURL :: string

text \<open>
  The constructor. The default of the \<^verbatim>\<open>baseURL\<close> parameter applies to an absent
  base URL only: \<^verbatim>\<open>null\<close> and the empty string reach the client as they are.
  \<^verbatim>\<open>!apiKey\<close> holds of an absent key and of the empty string. The constructor of the
  base class (\<^verbatim>\<open>../BaseAI\<close>) is called first and takes no part in the result.
\<close>

definition LobeQwenAI_constructor :: "'x ClientOptions \<Rightarrow> AgentRuntimeError + 'x LobeQwenAI" where
  "LobeQwenAI_constructor opts =
     (let url = (case ClientOptions.baseURL opts of
                   Absent \<Rightarrow> Some DEFAULT_BASE_URL
                 | Null \<Rightarrow> None
                 | Given given \<Rightarrow> Some given)
      in case ClientOptions.apiKey opts of
           None \<Rightarrow> Inl (createError InvalidProviderAPIKey None)
         | Some key \<Rightarrow>
             if key = [] then Inl (createError InvalidProviderAPIKey None)
             else (let client = new_OpenAI key url (res opts)
                   in Inr \<lparr>client = client, baseURL = OpenAI.baseURL client\<rparr>))"

text \<open>
  \<^verbatim>\<open>models()\<close>. The catalog \<^verbatim>\<open>Qwen\<close> is imported from a module outside the sources
  at hand, so it is a parameter. The state a call could touch is the catalog and the
  runtime instance; both are handed back with the result.
\<close>

definition models ::
  "ModelProviderCard \<times> 'x LobeQwenAI \<Rightarrow>
   ChatModelCard list \<times> (ModelProviderCard \<times> 'x LobeQwenAI)" where
  "models state = (case state of (Qwen_card, this) \<Rightarrow> (chatModels Qwen_card, (Qwen_card, this)))"

subsection \<open>chat\<close>

type_synonym AbortSignal = bool

record 'k ChatCompetitionOptions =
  callback :: "'k option"
  headers :: "(string \<times> string) list option"
  signal :: "AbortSignal option"

text \<open>The second argument of \<^verbatim>\<open>client.chat.completions.create\<close>.\<close>

record RequestOptions =
  headers :: "(string \<times> string) list"
  signal :: "AbortSignal option"

text \<open>
  What the vendor call resolves to: the client's stream of chunks for a streaming request,
  a single completion otherwise.
\<close>

datatype 'l response =
  StreamResponse "'l ChatCompletionChunk list"
| CompletionResponse "'l ChatCompletion"

text \<open>What \<^verbatim>\<open>QwenAIStream\<close> is given: the client's stream or a \<^verbatim>\<open>ReadableStream\<close>.\<close>

datatype 'l chat_stream =
  ClientStream "'l ChatCompletionChunk list"
| WebStream "'l ChatCompletionChunk ReadableStream"

text \<open>
  What \<^verbatim>\<open>chat\<close> calls and reads outside the sources at hand, as parameters: the
  vendor call (the network), the environment variable, and the helpers
  \<^verbatim>\<open>debugStream\<close> (an async function: it fails by rejecting, with the reason given
  here), \<^verbatim>\<open>QwenAIStream\<close>, \<^verbatim>\<open>StreamingResponse\<close> and \<^verbatim>\<open>handleOpenAIError\<close>
  (the error body and, when it finds one, a finer kind).
\<close>

record ('m, 't, 'o, 'l, 'k, 'q, 'r, 'b, 'x) collaborators =
  create :: "'x OpenAI \<Rightarrow> ('m, 't, 'o) CompletionParams \<Rightarrow> RequestOptions \<Rightarrow> thrown + 'l response"
  DEBUG_QWEN_CHAT_COMPLETION :: "string option"
  debugStream :: "'l ChatCompletionChunk ReadableStream \<Rightarrow> thrown option"
  QwenAIStream :: "'l chat_stream \<Rightarrow> 'k option \<Rightarrow> thrown + 'q"
  StreamingResponse :: "'q \<Rightarrow> (string \<times> string) list option \<Rightarrow> thrown + 'r"
  handleOpenAIError :: "thrown \<Rightarrow> 'b \<times> AgentRuntimeErrorType option"

text \<open>
  The client's \<^verbatim>\<open>Stream.tee()\<close> gives two streams of the same chunks, and
  \<^verbatim>\<open>toReadableStream()\<close> a \<^verbatim>\<open>ReadableStream\<close> of them.
\<close>

definition tee :: "'a list \<Rightarrow> 'a list \<times> 'a list" where
  "tee s = (s, s)"

definition toReadableStream :: "'a list \<Rightarrow> 'a ReadableStream" where
  "toReadableStream s = \<lparr>queue = s, closed = True\<rparr>"

text \<open>
  \<^verbatim>\<open>debugStream(debug.toReadableStream()).catch(console.error)\<close>: what the call adds
  to the console.
\<close>

definition debug_capture ::
  "('m, 't, 'o, 'l, 'k, 'q, 'r, 'b, 'x) collaborators \<Rightarrow> 'l ChatCompletionChunk list \<Rightarrow>
   thrown list" where
  "debug_capture env debug =
     (case debugStream env (toReadableStream debug) of
        None \<Rightarrow> []
      | Some reason \<Rightarrow> [reason])"

text \<open>
  The \<^verbatim>\<open>try\<close> block of \<^verbatim>\<open>chat\<close>: what it returns or throws, and what reaches the
  console. A response of the wrong shape for the branch taken has no \<^verbatim>\<open>tee\<close>, or no
  \<^verbatim>\<open>choices\<close>, and the access throws a \<^verbatim>\<open>TypeError\<close>.
\<close>

definition chat_try ::
  "('m, 't, 'o, 'l, 'k, 'q, 'r, 'b, 'x) collaborators \<Rightarrow> 'x LobeQwenAI \<Rightarrow>
   ('m, 't, 'o) ChatStreamPayload \<Rightarrow> 'k ChatCompetitionOptions option \<Rightarrow>
   (thrown + 'r) \<times> thrown list" where
  "chat_try env this payload options =
     (let params = buildCompletionParamsByModel payload
      in case create env (client this) params
                \<lparr>headers = [(''Accept'', ''*/*'')],
                 signal = Option.bind options ChatCompetitionOptions.signal\<rparr> of
           Inl e \<Rightarrow> (Inl e, [])
         | Inr response \<Rightarrow>
             if truthy_bool (stream params) then
               (case response of
                  CompletionResponse data \<Rightarrow>
                    (Inl (Thrown None ''TypeError: response.tee is not a function''), [])
                | StreamResponse s \<Rightarrow>
                    (case tee s of (prodStream, debug) \<Rightarrow>
                       (let console =
                              (if DEBUG_QWEN_CHAT_COMPLETION env = Some ''1''
                               then debug_capture env debug else [])
                        in (bind_thrown
                              (QwenAIStream env (ClientStream prodStream)
                                 (Option.bind options callback))
                              (\<lambda>q. StreamingResponse env q
                                 (Option.bind options ChatCompetitionOptions.headers)),
                            console))))
             else
               (bind_thrown
                  (case response of
                     CompletionResponse data \<Rightarrow> transformResponseToStream data
                   | StreamResponse s \<Rightarrow>
                       Inl (Thrown None ''TypeError: data.choices is undefined''))
                  (\<lambda>stream.
                     bind_thrown
                       (QwenAIStream env (WebStream stream) (Option.bind options callback))
                       (\<lambda>q. StreamingResponse env q
                          (Option.bind options ChatCompetitionOptions.headers))),
                []))"

text \<open>The \<^verbatim>\<open>catch\<close> block of \<^verbatim>\<open>chat\<close>: the runtime error thrown for a caught value.\<close>

definition chat_catch ::
  "('m, 't, 'o, 'l, 'k, 'q, 'r, 'b, 'x) collaborators \<Rightarrow> 'x LobeQwenAI \<Rightarrow> thrown \<Rightarrow>
   (thrown + 'b) ChatCompletionErrorPayload" where
  "chat_catch env this e =
     (if status e = Some (Finite 401)
      then AgentRuntimeError_chat
             \<lparr>endpoint = LobeQwenAI.baseURL this,
              error = Inl e,
              errorType = InvalidProviderAPIKey,
              provider = Qwen\<rparr>
      else (case handleOpenAIError env e of
              (errorResult, RuntimeError) \<Rightarrow>
                (let kind = nullish RuntimeError ProviderBizError
                 in AgentRuntimeError_chat
                      \<lparr>endpoint = LobeQwenAI.baseURL this,
                       error = Inr errorResult,
                       errorType = kind,
                       provider = Qwen\<rparr>)))"

text \<open>
  \<^verbatim>\<open>chat\<close>: the response it returns or the runtime error it throws, paired with what
  was written to the console.
\<close>

definition chat ::
  "('m, 't, 'o, 'l, 'k, 'q, 'r, 'b, 'x) collaborators \<Rightarrow> 'x LobeQwenAI \<Rightarrow>
   ('m, 't, 'o) ChatStreamPayload \<Rightarrow> 'k ChatCompetitionOptions option \<Rightarrow>
   ((thrown + 'b) ChatCompletionErrorPayload + 'r) \<times> thrown list" where
  "chat env this payload options =
     (case chat_try env this payload options of
        (Inl e, console) \<Rightarrow> (Inl (chat_catch env this e), console)
      | (Inr returned, console) \<Rightarrow> (Inr returned, console))"

text \<open>
  The kind of the runtime error a call of \<^verbatim>\<open>chat\<close> ends with, if it throws, and the
  chunks a reader of a synthesized stream receives, if it was built.
\<close>

fun thrown_kind :: "'e ChatCompletionErrorPayload + 'r \<Rightarrow> AgentRuntimeErrorType option" where
  "thrown_kind (Inl err) = Some (errorType err)"
| "thrown_kind (Inr returned) = None"

fun delivered :: "thrown + 'a ReadableStream \<Rightarrow> 'a list" where
  "delivered (Inl e) = []"
| "delivered (Inr s) = queue s"

section \<open>Concrete inputs\<close>

text \<open>Payloads: a text model, a vision model, a request with tools, one below the bound.\<close>

definition text_payload :: "(string, string, unit) ChatStreamPayload" where
  "text_payload =
     \<lparr>frequency_penalty = Some (Finite 0), messages = [''hello''], model = ''qwen-turbo'',
      presence_penalty = Some (Finite 0), stream = Some True, temperature = Some (Finite 0.6),
      tools = None, top_p = Some (Finite 1), others = ()\<rparr>"

definition vision_payload :: "(string, string, unit) ChatStreamPayload" where
  "vision_payload = text_payload\<lparr>model := ''qwen-vl-plus''\<rparr>"

definition tools_payload :: "(string, string, unit) ChatStreamPayload" where
  "tools_payload = text_payload\<lparr>tools := Some [''get_weather'']\<rparr>"

definition low_top_p_payload :: "(string, string, unit) ChatStreamPayload" where
  "low_top_p_payload = text_payload\<lparr>top_p := Some (Finite 0.5), stream := None\<rparr>"

text \<open>A completion with one choice that answers with text and calls one tool.\<close>

definition example_completion :: "unit ChatCompletion" where
  "example_completion =
     \<lparr>ChatCompletion.choices =
        [\<lparr>Choice.finish_reason = ''stop'', Choice.index = 0, Choice.logprobs = None,
          Choice.message =
            \<lparr>ChatCompletionMessage.content = Some ''Hello'',
             ChatCompletionMessage.role = ''assistant'',
             ChatCompletionMessage.tool_calls = Some
               [\<lparr>ChatCompletionMessageToolCall.function' =
                   \<lparr>ToolCallFunction.arguments = ''{}'',
                    ToolCallFunction.name = ''get_weather''\<rparr>,
                 ChatCompletionMessageToolCall.id' = ''call_0'',
                 ChatCompletionMessageToolCall.type = ''function''\<rparr>]\<rparr>\<rparr>],
      ChatCompletion.created = 1700000000,
      ChatCompletion.id' = ''chatcmpl-1'',
      ChatCompletion.model = ''qwen-turbo'',
      ChatCompletion.object = ''chat.completion'',
      ChatCompletion.system_fingerprint = Some ''fp_1''\<rparr>"

text \<open>A runtime, and collaborators whose vendor call is refused, rate-limited, or answers.\<close>

definition example_runtime :: "unit LobeQwenAI" where
  "example_runtime =
     \<lparr>client = new_OpenAI ''sk-test'' (Some DEFAULT_BASE_URL) (),
      baseURL = DEFAULT_BASE_URL\<rparr>"

definition refusing_env ::
  "(string, string, unit, unit, unit, unit chat_stream, unit chat_stream, string, unit)
     collaborators" where
  "refusing_env =
     \<lparr>create = (\<lambda>c p r. Inl (Thrown (Some (Finite 401)) ''Unauthorized'')),
      DEBUG_QWEN_CHAT_COMPLETION = None,
      debugStream = (\<lambda>s. None),
      QwenAIStream = (\<lambda>s cb. Inr s),
      StreamingResponse = (\<lambda>q h. Inr q),
      handleOpenAIError = (\<lambda>e. (description e,
         if status e = Some (Finite 429) then Some (OtherErrorType ''QuotaLimitReached'')
         else None))\<rparr>"

definition limiting_env ::
  "(string, string, unit, unit, unit, unit chat_stream, unit chat_stream, string, unit)
     collaborators" where
  "limiting_env =
     refusing_env\<lparr>create := (\<lambda>c p r. Inl (Thrown (Some (Finite 429)) ''Too Many Requests''))\<rparr>"

definition answering_env ::
  "(string, string, unit, unit, unit, unit chat_stream, unit chat_stream, string, unit)
     collaborators" where
  "answering_env =
     refusing_env\<lparr>create := (\<lambda>c p r.
        if truthy_bool (stream p) then Inr (StreamResponse [])
        else Inr (CompletionResponse example_completion))\<rparr>"

definition broken_transcoder_env ::
  "(string, string, unit, unit, unit, unit chat_stream, unit chat_stream, string, unit)
     collaborators" where
  "broken_transcoder_env =
     answering_env\<lparr>QwenAIStream := (\<lambda>s cb. Inl (Thrown None ''the transcoder failed''))\<rparr>"

definition broken_response_env ::
  "(string, string, unit, unit, unit, unit chat_stream, unit chat_stream, string, unit)
     collaborators" where
  "broken_response_env =
     answering_env\<lparr>StreamingResponse := (\<lambda>q h. Inl (Thrown None ''no response''))\<rparr>"

definition failing_sink :: "unit ChatCompletionChunk ReadableStream \<Rightarrow> thrown option" where
  "failing_sink s = Some (Thrown None ''the debug sink failed'')"

section \<open>Facts about the request builder\<close>

lemma spread_fields:
  "frequency_penalty (spread_with_result_format p f) = frequency_penalty p"
  "messages (spread_with_result_format p f) = messages p"
  "model (spread_with_result_format p f) = model p"
  "presence_penalty (spread_with_result_format p f) = presence_penalty p"
  "stream (spread_with_result_format p f) = stream p"
  "temperature (spread_with_result_format p f) = temperature p"
  "tools (spread_with_result_format p f) = tools p"
  "top_p (spread_with_result_format p f) = top_p p"
  "others (spread_with_result_format p f) = others p"
  "result_format (spread_with_result_format p f) = Some f"
  by (simp_all add: spread_with_result_format_def ChatStreamPayload.defs CompletionParams.defs)

lemma startsWith_text: "\<not> startsWith ''qwen-turbo'' ''qwen-vl''"
  by (simp add: startsWith_def)

lemma startsWith_vision: "startsWith ''qwen-vl-plus'' ''qwen-vl''"
  by (simp add: startsWith_def)

lemma build_text:
  "\<not> startsWith (model p) ''qwen-vl'' \<Longrightarrow>
   buildCompletionParamsByModel p =
     (spread_with_result_format p ''message'')
       \<lparr>messages := messages p,
        stream := Some (if truthy_length (optional_length (tools p)) then False
                        else nullish (stream p) True),
        top_p := normalize_top_p (top_p p)\<rparr>"
  by (simp add: buildCompletionParamsByModel_def)

lemma build_vision:
  "startsWith (model p) ''qwen-vl'' \<Longrightarrow>
   buildCompletionParamsByModel p =
     (spread_with_result_format p ''message'')
       \<lparr>messages := messages p,
        stream := Some (if truthy_length (optional_length (tools p)) then False
                        else nullish (stream p) True),
        top_p := None, presence_penalty := None, frequency_penalty := None,
        temperature := None, result_format := None\<rparr>"
  by (simp add: buildCompletionParamsByModel_def unset_def)

lemma ge_one_truthy: "ge n (Finite 1) \<Longrightarrow> truthy_number n"
  by (cases n) auto

lemma lt_not_ge: "lt n m \<Longrightarrow> \<not> ge n m"
  by (cases n; cases m) auto

lemma example_models:
  "model text_payload = ''qwen-turbo''"
  "model vision_payload = ''qwen-vl-plus''"
  "model tools_payload = ''qwen-turbo''"
  "model low_top_p_payload = ''qwen-turbo''"
  by (simp_all add: text_payload_def vision_payload_def tools_payload_def low_top_p_payload_def)

text \<open>
  Claim C2 fails as stated: it speaks of every payload, and for a vision model the builder
  removes \<^verbatim>\<open>top_p\<close> from the request, whatever its value. The vision payload asks for
  \<^verbatim>\<open>top_p = 1\<close>; the request built from it has no \<^verbatim>\<open>top_p\<close>, so not 0.999.
\<close>

theorem top_p_vision_counterexample:
  "top_p vision_payload = Some (Finite 1) \<and> ge (Finite 1) (Finite 1) \<and>
   top_p (buildCompletionParamsByModel vision_payload) = None \<and>
   top_p (buildCompletionParamsByModel vision_payload) \<noteq> Some (Finite 0.999)"
  by (simp add: build_vision example_models startsWith_vision)
     (simp add: vision_payload_def text_payload_def)

text \<open>
  Claim C2, amended to the payloads of non-vision models: when the payload's
  \<^verbatim>\<open>top_p\<close> is at least 1, the request's \<^verbatim>\<open>top_p\<close> is 0.999; when it is below 1, the
  request carries it unchanged.
\<close>

theorem top_p_normalized:
  "\<not> startsWith (model p) ''qwen-vl'' \<Longrightarrow> top_p p = Some n \<Longrightarrow>
     (ge n (Finite 1) \<longrightarrow> top_p (buildCompletionParamsByModel p) = Some (Finite 0.999)) \<and>
     (lt n (Finite 1) \<longrightarrow> top_p (buildCompletionParamsByModel p) = Some n)"
  by (auto simp: build_text ge_one_truthy dest: lt_not_ge)

theorem top_p_normalized_witness:
  "top_p (buildCompletionParamsByModel text_payload) = Some (Finite 0.999) \<and>
   top_p (buildCompletionParamsByModel low_top_p_payload) = Some (Finite 0.5)"
proof -
  have high: "top_p text_payload = Some (Finite 1)" "ge (Finite 1) (Finite 1)"
    by (simp_all add: text_payload_def)
  have low: "top_p low_top_p_payload = Some (Finite 0.5)" "lt (Finite 0.5) (Finite 1)"
    by (simp_all add: low_top_p_payload_def)
  have non_vision: "\<not> startsWith (model text_payload) ''qwen-vl''"
    "\<not> startsWith (model low_top_p_payload) ''qwen-vl''"
    by (simp_all add: example_models startsWith_text)
  show ?thesis
    using top_p_normalized [OF non_vision(1) high(1)]
      top_p_normalized [OF non_vision(2) low(1)]
      high(2) low(2)
    by simp
qed

text \<open>
  Claim C3: when the payload's \<^verbatim>\<open>tools\<close> is a non-empty list, the request's
  \<^verbatim>\<open>stream\<close> is false, whatever flag the payload asks for; when the payload has no tools
  (none, or an empty list), the request's \<^verbatim>\<open>stream\<close> is the requested flag, and true
  when the flag is absent. This holds for every model, vision or not.
\<close>

theorem stream_mode:
  "(tools p = Some ts \<and> ts \<noteq> [] \<longrightarrow> stream (buildCompletionParamsByModel p) = Some False) \<and>
   (tools p = None \<or> tools p = Some [] \<longrightarrow>
      stream (buildCompletionParamsByModel p) =
        Some (case stream p of None \<Rightarrow> True | Some requested \<Rightarrow> requested))"
  by (cases "startsWith (model p) ''qwen-vl''")
     (auto simp: build_text build_vision split: option.splits)

theorem stream_mode_witness:
  "stream tools_payload = Some True \<and>
   stream (buildCompletionParamsByModel tools_payload) = Some False \<and>
   stream low_top_p_payload = None \<and>
   stream (buildCompletionParamsByModel low_top_p_payload) = Some True"
proof -
  have with_tools: "tools tools_payload = Some [''get_weather''] \<and> [''get_weather''] \<noteq> []"
    "stream tools_payload = Some True"
    by (simp_all add: tools_payload_def text_payload_def)
  have without: "tools low_top_p_payload = None \<or> tools low_top_p_payload = Some []"
    "stream low_top_p_payload = None"
    by (simp_all add: low_top_p_payload_def text_payload_def)
  show ?thesis
    using stream_mode [of tools_payload "[''get_weather'']"]
      stream_mode [of low_top_p_payload "[]"] with_tools without
    by simp
qed

text \<open>
  Claim C4: for a payload whose model id starts with \<^verbatim>\<open>qwen-vl\<close>, the request has
  none of \<^verbatim>\<open>presence_penalty\<close>, \<^verbatim>\<open>frequency_penalty\<close>, \<^verbatim>\<open>temperature\<close>, \<^verbatim>\<open>top_p\<close>
  and \<^verbatim>\<open>result_format\<close>.
\<close>

theorem vision_omits:
  "startsWith (model p) ''qwen-vl'' \<Longrightarrow>
   presence_penalty (buildCompletionParamsByModel p) = None \<and>
   frequency_penalty (buildCompletionParamsByModel p) = None \<and>
   temperature (buildCompletionParamsByModel p) = None \<and>
   top_p (buildCompletionParamsByModel p) = None \<and>
   result_format (buildCompletionParamsByModel p) = None"
  by (simp add: build_vision)

theorem vision_omits_witness:
  "presence_penalty vision_payload = Some (Finite 0) \<and>
   temperature vision_payload = Some (Finite 0.6) \<and>
   presence_penalty (buildCompletionParamsByModel vision_payload) = None \<and>
   frequency_penalty (buildCompletionParamsByModel vision_payload) = None \<and>
   temperature (buildCompletionParamsByModel vision_payload) = None \<and>
   top_p (buildCompletionParamsByModel vision_payload) = None \<and>
   result_format (buildCompletionParamsByModel vision_payload) = None"
proof -
  have vision: "startsWith (model vision_payload) ''qwen-vl''"
    by (simp add: example_models startsWith_vision)
  show ?thesis
    using vision_omits [OF vision] by (simp add: vision_payload_def text_payload_def)
qed

text \<open>
  Claim C10: on a payload of a non-vision model the builder returns a request (it is a
  total function of the payload, whose \<^verbatim>\<open>model\<close> is a string by its type, and no step
  of it throws) in which every property other than \<^verbatim>\<open>stream\<close> and \<^verbatim>\<open>top_p\<close> is the
  payload's, \<^verbatim>\<open>result_format\<close> is \<^verbatim>\<open>'message'\<close>, and no property the payload has is
  missing: \<^verbatim>\<open>stream\<close> is always there, and \<^verbatim>\<open>top_p\<close> is there when the payload has it.
\<close>

theorem non_vision_frame:
  "\<not> startsWith (model p) ''qwen-vl'' \<Longrightarrow>
   frequency_penalty (buildCompletionParamsByModel p) = frequency_penalty p \<and>
   messages (buildCompletionParamsByModel p) = messages p \<and>
   model (buildCompletionParamsByModel p) = model p \<and>
   presence_penalty (buildCompletionParamsByModel p) = presence_penalty p \<and>
   temperature (buildCompletionParamsByModel p) = temperature p \<and>
   tools (buildCompletionParamsByModel p) = tools p \<and>
   others (buildCompletionParamsByModel p) = others p \<and>
   result_format (buildCompletionParamsByModel p) = Some ''message'' \<and>
   stream (buildCompletionParamsByModel p) \<noteq> None \<and>
   (top_p p \<noteq> None \<longrightarrow> top_p (buildCompletionParamsByModel p) \<noteq> None)"
  by (cases "top_p p") (simp_all add: build_text spread_fields)

theorem non_vision_frame_witness:
  "messages (buildCompletionParamsByModel text_payload) = [''hello''] \<and>
   model (buildCompletionParamsByModel text_payload) = ''qwen-turbo'' \<and>
   temperature (buildCompletionParamsByModel text_payload) = Some (Finite 0.6) \<and>
   result_format (buildCompletionParamsByModel text_payload) = Some ''message'' \<and>
   top_p text_payload \<noteq> None \<and>
   top_p (buildCompletionParamsByModel text_payload) \<noteq> None"
proof -
  have non_vision: "\<not> startsWith (model text_payload) ''qwen-vl''"
    by (simp add: example_models startsWith_text)
  show ?thesis
    using non_vision_frame [OF non_vision] by (simp add: text_payload_def)
qed

section \<open>Facts about the synthesized stream\<close>

lemma transform_value:
  "transformResponseToStream data =
     Inr \<lparr>queue =
          [\<lparr>choices = map first_chunk_choice (ChatCompletion.choices data),
            created = ChatCompletion.created data,
            id' = ChatCompletion.id' data,
            model = ChatCompletion.model data,
            object = ''chat.completion.chunk'',
            system_fingerprint = None\<rparr>,
           \<lparr>choices = map second_chunk_choice (ChatCompletion.choices data),
            created = ChatCompletion.created data,
            id' = ChatCompletion.id' data,
            model = ChatCompletion.model data,
            object = ''chat.completion.chunk'',
            system_fingerprint = ChatCompletion.system_fingerprint data\<rparr>],
         closed = True\<rparr>"
  by (simp add: transformResponseToStream_def new_ReadableStream_def enqueue_def close_def)

text \<open>
  Claim C1 fails as stated in its last part: the second chunk does not come with empty or
  absent content, it repeats the content of each choice. For the example completion, whose
  one choice says \<^verbatim>\<open>Hello\<close>, the stream holds two chunks and the second one's delta
  carries \<^verbatim>\<open>Hello\<close> again.
\<close>

theorem second_chunk_content_counterexample:
  "length (delivered (transformResponseToStream example_completion)) = 2 \<and>
   Delta.content (delta (hd (ChatCompletionChunk.choices
       (delivered (transformResponseToStream example_completion) ! 1)))) = Some ''Hello''"
  by (simp add: transform_value second_chunk_choice_def example_completion_def)

lemma entry_observation:
  "(\<lambda>c. (Delta.content (delta c), Delta.role (delta c),
        map_option (map (\<lambda>t. (DeltaToolCall.function' t, DeltaToolCall.id' t,
                               DeltaToolCall.index t, DeltaToolCall.type t)))
          (Delta.tool_calls (delta c)),
        ChunkChoice.finish_reason c, ChunkChoice.index c, ChunkChoice.logprobs c))
     (first_chunk_choice choice) =
   (ChatCompletionMessage.content (message choice),
    ChatCompletionMessage.role (message choice),
    map_option (\<lambda>calls. map (\<lambda>(position, call).
                   (ChatCompletionMessageToolCall.function' call,
                    ChatCompletionMessageToolCall.id' call, position,
                    ChatCompletionMessageToolCall.type call))
                 (zip [0..<length calls] calls))
      (ChatCompletionMessage.tool_calls (message choice)),
    None, Choice.index choice, Choice.logprobs choice)"
  by (cases "ChatCompletionMessage.tool_calls (message choice)")
     (simp_all add: first_chunk_choice_def enumerate_eq_zip split_def)

text \<open>
  Claim C1, amended: for a completion with N choices the stream is built without error,
  holds exactly two chunks and is closed. Each chunk has one entry per choice, in order,
  with the choice's index and logprobs, and carries the completion's \<^verbatim>\<open>created\<close>,
  \<^verbatim>\<open>id\<close> and \<^verbatim>\<open>model\<close> under the object name \<^verbatim>\<open>chat.completion.chunk\<close>; only
  the second has the completion's \<^verbatim>\<open>system_fingerprint\<close>. In the first chunk an entry
  has a null \<^verbatim>\<open>finish_reason\<close> and a delta with the choice's content and role and its
  tool calls, each with its position in the array as index. In the second chunk an entry
  has the choice's \<^verbatim>\<open>finish_reason\<close> and a delta with, again, the choice's content and
  role, and no tool calls.
\<close>

theorem synthesized_stream:
  "\<exists>c1 c2.
     transformResponseToStream data = Inr \<lparr>queue = [c1, c2], closed = True\<rparr> \<and>
     length (ChatCompletionChunk.choices c1) = length (ChatCompletion.choices data) \<and>
     length (ChatCompletionChunk.choices c2) = length (ChatCompletion.choices data) \<and>
     map (\<lambda>c. (Delta.content (delta c), Delta.role (delta c),
                map_option (map (\<lambda>t. (DeltaToolCall.function' t, DeltaToolCall.id' t,
                                       DeltaToolCall.index t, DeltaToolCall.type t)))
                  (Delta.tool_calls (delta c)),
                ChunkChoice.finish_reason c, ChunkChoice.index c, ChunkChoice.logprobs c))
         (ChatCompletionChunk.choices c1) =
       map (\<lambda>choice.
              (ChatCompletionMessage.content (message choice),
               ChatCompletionMessage.role (message choice),
               map_option (\<lambda>calls. map (\<lambda>(position, call).
                              (ChatCompletionMessageToolCall.function' call,
                               ChatCompletionMessageToolCall.id' call, position,
                               ChatCompletionMessageToolCall.type call))
                            (zip [0..<length calls] calls))
                 (ChatCompletionMessage.tool_calls (message choice)),
               None, Choice.index choice, Choice.logprobs choice))
         (ChatCompletion.choices data) \<and>
     map (\<lambda>c. (Delta.content (delta c), Delta.role (delta c), Delta.tool_calls (delta c),
                ChunkChoice.finish_reason c, ChunkChoice.index c, ChunkChoice.logprobs c))
         (ChatCompletionChunk.choices c2) =
       map (\<lambda>choice.
              (ChatCompletionMessage.content (message choice),
               ChatCompletionMessage.role (message choice), None,
               Some (Choice.finish_reason choice), Choice.index choice,
               Choice.logprobs choice))
         (ChatCompletion.choices data) \<and>
     (ChatCompletionChunk.created c1, ChatCompletionChunk.id' c1, ChatCompletionChunk.model c1,
      ChatCompletionChunk.object c1, ChatCompletionChunk.system_fingerprint c1) =
       (ChatCompletion.created data, ChatCompletion.id' data, ChatCompletion.model data,
        ''chat.completion.chunk'', None) \<and>
     (ChatCompletionChunk.created c2, ChatCompletionChunk.id' c2, ChatCompletionChunk.model c2,
      ChatCompletionChunk.object c2, ChatCompletionChunk.system_fingerprint c2) =
       (ChatCompletion.created data, ChatCompletion.id' data, ChatCompletion.model data,
        ''chat.completion.chunk'', ChatCompletion.system_fingerprint data)"
  using entry_observation [where ?'a = 'a]
  by (simp add: transform_value second_chunk_choice_def comp_def)

theorem synthesized_stream_witness:
  "\<exists>c1 c2.
     transformResponseToStream example_completion = Inr \<lparr>queue = [c1, c2], closed = True\<rparr> \<and>
     map (\<lambda>c. (Delta.content (delta c), Delta.role (delta c),
                map_option (map (\<lambda>t. (DeltaToolCall.function' t, DeltaToolCall.id' t,
                                       DeltaToolCall.index t, DeltaToolCall.type t)))
                  (Delta.tool_calls (delta c)),
                ChunkChoice.finish_reason c, ChunkChoice.index c, ChunkChoice.logprobs c))
         (ChatCompletionChunk.choices c1) =
       [(Some ''Hello'', ''assistant'',
         Some [(\<lparr>ToolCallFunction.arguments = ''{}'', ToolCallFunction.name = ''get_weather''\<rparr>,
                ''call_0'', 0, ''function'')],
         None, 0, None)] \<and>
     map (\<lambda>c. (Delta.content (delta c), Delta.role (delta c), Delta.tool_calls (delta c),
                ChunkChoice.finish_reason c, ChunkChoice.index c, ChunkChoice.logprobs c))
         (ChatCompletionChunk.choices c2) =
       [(Some ''Hello'', ''assistant'', None, Some ''stop'', 0, None)]"
proof -
  obtain c1 c2 where
    built: "transformResponseToStream example_completion =
      Inr \<lparr>queue = [c1, c2], closed = True\<rparr>"
    and first: "map (\<lambda>c. (Delta.content (delta c), Delta.role (delta c),
                map_option (map (\<lambda>t. (DeltaToolCall.function' t, DeltaToolCall.id' t,
                                       DeltaToolCall.index t, DeltaToolCall.type t)))
                  (Delta.tool_calls (delta c)),
                ChunkChoice.finish_reason c, ChunkChoice.index c, ChunkChoice.logprobs c))
         (ChatCompletionChunk.choices c1) =
       map (\<lambda>choice.
              (ChatCompletionMessage.content (message choice),
               ChatCompletionMessage.role (message choice),
               map_option (\<lambda>calls. map (\<lambda>(position, call).
                              (ChatCompletionMessageToolCall.function' call,
                               ChatCompletionMessageToolCall.id' call, position,
                               ChatCompletionMessageToolCall.type call))
                            (zip [0..<length calls] calls))
                 (ChatCompletionMessage.tool_calls (message choice)),
               None, Choice.index choice, Choice.logprobs choice))
         (ChatCompletion.choices example_completion)"
    and second: "map (\<lambda>c. (Delta.content (delta c), Delta.role (delta c),
                Delta.tool_calls (delta c),
                ChunkChoice.finish_reason c, ChunkChoice.index c, ChunkChoice.logprobs c))
         (ChatCompletionChunk.choices c2) =
       map (\<lambda>choice.
              (ChatCompletionMessage.content (message choice),
               ChatCompletionMessage.role (message choice), None,
               Some (Choice.finish_reason choice), Choice.index choice,
               Choice.logprobs choice))
         (ChatCompletion.choices example_completion)"
    using synthesized_stream [of example_completion] by blast
  have first_is: "map (\<lambda>c. (Delta.content (delta c), Delta.role (delta c),
                map_option (map (\<lambda>t. (DeltaToolCall.function' t, DeltaToolCall.id' t,
                                       DeltaToolCall.index t, DeltaToolCall.type t)))
                  (Delta.tool_calls (delta c)),
                ChunkChoice.finish_reason c, ChunkChoice.index c, ChunkChoice.logprobs c))
         (ChatCompletionChunk.choices c1) =
       [(Some ''Hello'', ''assistant'',
         Some [(\<lparr>ToolCallFunction.arguments = ''{}'', ToolCallFunction.name = ''get_weather''\<rparr>,
                ''call_0'', 0, ''function'')],
         None, 0, None)]"
    unfolding first by (simp add: example_completion_def)
  have second_is: "map (\<lambda>c. (Delta.content (delta c), Delta.role (delta c),
                Delta.tool_calls (delta c),
                ChunkChoice.finish_reason c, ChunkChoice.index c, ChunkChoice.logprobs c))
         (ChatCompletionChunk.choices c2) =
       [(Some ''Hello'', ''assistant'', None, Some ''stop'', 0, None)]"
    unfolding second by (simp add: example_completion_def)
  show ?thesis
    by (rule exI [of _ c1], rule exI [of _ c2]) (simp add: built first_is second_is)
qed

section \<open>Facts about chat\<close>

lemma chat_try_vendor_failure:
  "create env (client this) (buildCompletionParamsByModel payload)
       \<lparr>headers = [(''Accept'', ''*/*'')],
        signal = Option.bind options ChatCompetitionOptions.signal\<rparr> = Inl e \<Longrightarrow>
   chat_try env this payload options = (Inl e, [])"
  by (simp add: chat_try_def)

lemma chat_of_try:
  "fst (chat env this payload options) =
     (case fst (chat_try env this payload options) of
        Inl e \<Rightarrow> Inl (chat_catch env this e) | Inr r \<Rightarrow> Inr r)"
  by (simp add: chat_def split: prod.splits sum.splits)

lemma chat_catch_kind:
  "errorType (chat_catch env this e) =
     (if status e = Some (Finite 401) then InvalidProviderAPIKey
      else nullish (snd (handleOpenAIError env e)) ProviderBizError)"
  by (simp add: chat_catch_def AgentRuntimeError_chat_def split: prod.splits)

lemma chat_catch_tags:
  "endpoint (chat_catch env this e) = LobeQwenAI.baseURL this"
  "provider (chat_catch env this e) = Qwen"
  by (simp_all add: chat_catch_def AgentRuntimeError_chat_def split: prod.splits)

lemma chat_try_debug_free:
  "fst (chat_try (env\<lparr>DEBUG_QWEN_CHAT_COMPLETION := toggle, debugStream := sink\<rparr>)
          this payload options) =
   fst (chat_try env this payload options)"
  by (simp add: chat_try_def tee_def Let_def split: sum.splits response.splits)

lemma chat_catch_debug_free:
  "chat_catch (env\<lparr>DEBUG_QWEN_CHAT_COMPLETION := toggle, debugStream := sink\<rparr>) this e =
   chat_catch env this e"
  by (simp add: chat_catch_def)

lemma answered_chat:
  "chat answering_env example_runtime text_payload None = (Inr (ClientStream []), [])"
  by (simp add: chat_def chat_try_def answering_env_def refusing_env_def tee_def
      buildCompletionParamsByModel_def startsWith_def text_payload_def
      spread_with_result_format_def ChatStreamPayload.defs CompletionParams.defs)

text \<open>
  Claim C5: when the vendor call inside \<^verbatim>\<open>chat\<close> throws an error, \<^verbatim>\<open>chat\<close> throws a
  runtime error whose kind is \<^verbatim>\<open>InvalidProviderAPIKey\<close> if the error's status is 401,
  and otherwise the finer kind \<^verbatim>\<open>handleOpenAIError\<close> finds, or \<^verbatim>\<open>ProviderBizError\<close>
  when it finds none.
\<close>

theorem chat_error_kind:
  "create env (client this) (buildCompletionParamsByModel payload)
       \<lparr>headers = [(''Accept'', ''*/*'')],
        signal = Option.bind options ChatCompetitionOptions.signal\<rparr> = Inl e \<Longrightarrow>
   thrown_kind (fst (chat env this payload options)) =
     Some (if status e = Some (Finite 401) then InvalidProviderAPIKey
           else nullish (snd (handleOpenAIError env e)) ProviderBizError)"
  by (simp add: chat_of_try chat_try_vendor_failure chat_catch_kind)

theorem chat_error_kind_witness:
  "thrown_kind (fst (chat refusing_env example_runtime text_payload None)) =
     Some InvalidProviderAPIKey \<and>
   thrown_kind (fst (chat limiting_env example_runtime text_payload None)) =
     Some (OtherErrorType ''QuotaLimitReached'')"
  using chat_error_kind [of refusing_env example_runtime text_payload None
                            "Thrown (Some (Finite 401)) ''Unauthorized''"]
        chat_error_kind [of limiting_env example_runtime text_payload None
                            "Thrown (Some (Finite 429)) ''Too Many Requests''"]
  by (simp add: limiting_env_def refusing_env_def)

lemma bind_thrown_Inr:
  "bind_thrown m f = Inr r \<longleftrightarrow> (\<exists>x. m = Inr x \<and> f x = Inr r)"
  by (cases m) simp_all

lemma chat_try_returns:
  "fst (chat_try env this payload options) = Inr returned \<Longrightarrow>
   \<exists>response source q.
     create env (client this) (buildCompletionParamsByModel payload)
       \<lparr>headers = [(''Accept'', ''*/*'')],
        signal = Option.bind options ChatCompetitionOptions.signal\<rparr> = Inr response \<and>
     QwenAIStream env source (Option.bind options callback) = Inr q \<and>
     StreamingResponse env q (Option.bind options ChatCompetitionOptions.headers) = Inr returned"
  by (auto simp: chat_try_def tee_def Let_def bind_thrown_Inr
      split: sum.splits response.splits if_splits)

lemma example_streams:
  "truthy_bool (stream (buildCompletionParamsByModel text_payload))"
  "\<not> truthy_bool (stream (buildCompletionParamsByModel tools_payload))"
  by (simp_all add: build_text example_models startsWith_text)
     (simp_all add: text_payload_def tools_payload_def)

text \<open>
  Claim C6: a failure of any step of \<^verbatim>\<open>chat\<close> is caught and thrown again as one
  runtime error, the one the \<^verbatim>\<open>catch\<close> block builds from the value thrown. This holds
  when the vendor call throws; when, on the streaming branch or on the synthesized one,
  \<^verbatim>\<open>QwenAIStream\<close> or \<^verbatim>\<open>StreamingResponse\<close> throws; and when the response has the
  wrong shape for the branch taken, so that \<^verbatim>\<open>tee\<close> or \<^verbatim>\<open>choices\<close> is missing. The
  request builder cannot throw. Every error \<^verbatim>\<open>chat\<close> throws is built by the
  \<^verbatim>\<open>catch\<close> block and carries the runtime's base URL as endpoint and the provider id
  \<^verbatim>\<open>Qwen\<close>. When \<^verbatim>\<open>chat\<close> returns a response, the vendor call, \<^verbatim>\<open>QwenAIStream\<close>
  and \<^verbatim>\<open>StreamingResponse\<close> have all succeeded and the response is the last one's:
  nothing is returned after a failure.
\<close>

theorem chat_failures_rethrown:
  "let params = buildCompletionParamsByModel payload;
       answer = create env (client this) params
                  \<lparr>headers = [(''Accept'', ''*/*'')],
                   signal = Option.bind options ChatCompetitionOptions.signal\<rparr>;
       cb = Option.bind options callback;
       hdrs = Option.bind options ChatCompetitionOptions.headers;
       outcome = fst (chat env this payload options)
   in (answer = Inl e \<longrightarrow> outcome = Inl (chat_catch env this e)) \<and>
      (answer = Inr (StreamResponse s) \<and> truthy_bool (stream params) \<and>
       (QwenAIStream env (ClientStream s) cb = Inl e \<or>
        (\<exists>q. QwenAIStream env (ClientStream s) cb = Inr q \<and>
              StreamingResponse env q hdrs = Inl e)) \<longrightarrow>
         outcome = Inl (chat_catch env this e)) \<and>
      (answer = Inr (CompletionResponse data) \<and> \<not> truthy_bool (stream params) \<and>
       transformResponseToStream data = Inr synthesized \<and>
       (QwenAIStream env (WebStream synthesized) cb = Inl e \<or>
        (\<exists>q. QwenAIStream env (WebStream synthesized) cb = Inr q \<and>
              StreamingResponse env q hdrs = Inl e)) \<longrightarrow>
         outcome = Inl (chat_catch env this e)) \<and>
      (answer = Inr (CompletionResponse data) \<and> truthy_bool (stream params) \<longrightarrow>
         outcome =
           Inl (chat_catch env this (Thrown None ''TypeError: response.tee is not a function''))) \<and>
      (answer = Inr (StreamResponse s) \<and> \<not> truthy_bool (stream params) \<longrightarrow>
         outcome =
           Inl (chat_catch env this (Thrown None ''TypeError: data.choices is undefined''))) \<and>
      (outcome = Inr returned \<longrightarrow>
         (\<exists>response source q.
            answer = Inr response \<and> QwenAIStream env source cb = Inr q \<and>
            StreamingResponse env q hdrs = Inr returned)) \<and>
      (outcome = Inl err \<longrightarrow>
         (\<exists>caught. err = chat_catch env this caught) \<and>
         endpoint err = LobeQwenAI.baseURL this \<and> provider err = Qwen)"
  unfolding Let_def
proof (intro conjI impI)
  assume "fst (chat env this payload options) = Inr returned"
  then have "fst (chat_try env this payload options) = Inr returned"
    by (simp add: chat_of_try split: sum.splits)
  then show "\<exists>response source q.
         create env (client this) (buildCompletionParamsByModel payload)
           \<lparr>headers = [(''Accept'', ''*/*'')],
            signal = Option.bind options ChatCompetitionOptions.signal\<rparr> = Inr response \<and>
         QwenAIStream env source (Option.bind options callback) = Inr q \<and>
         StreamingResponse env q (Option.bind options ChatCompetitionOptions.headers) =
           Inr returned"
    by (rule chat_try_returns)
next
  assume "fst (chat env this payload options) = Inl err"
  then show "\<exists>caught. err = chat_catch env this caught"
    by (auto simp: chat_of_try split: sum.splits)
  then show "endpoint err = LobeQwenAI.baseURL this" "provider err = Qwen"
    by (auto simp: chat_catch_tags)
qed (auto simp: chat_of_try chat_try_def tee_def)

theorem chat_failures_rethrown_witness:
  "fst (chat refusing_env example_runtime text_payload None) =
     Inl (chat_catch refusing_env example_runtime
            (Thrown (Some (Finite 401)) ''Unauthorized'')) \<and>
   fst (chat broken_transcoder_env example_runtime text_payload None) =
     Inl (chat_catch broken_transcoder_env example_runtime
            (Thrown None ''the transcoder failed'')) \<and>
   fst (chat broken_response_env example_runtime tools_payload None) =
     Inl (chat_catch broken_response_env example_runtime (Thrown None ''no response'')) \<and>
   endpoint (chat_catch broken_response_env example_runtime (Thrown None ''no response'')) =
     DEFAULT_BASE_URL \<and>
   provider (chat_catch broken_response_env example_runtime (Thrown None ''no response'')) =
     Qwen"
proof -
  obtain synthesized where
    built: "transformResponseToStream example_completion = Inr synthesized"
    using transform_value [of example_completion] by simp
  have refused: "fst (chat refusing_env example_runtime text_payload None) =
      Inl (chat_catch refusing_env example_runtime
             (Thrown (Some (Finite 401)) ''Unauthorized''))"
    using chat_failures_rethrown [where env = refusing_env and this = example_runtime
        and payload = text_payload and options = None
        and e = "Thrown (Some (Finite 401)) ''Unauthorized''"]
    by (simp add: Let_def refusing_env_def)
  have transcoder: "fst (chat broken_transcoder_env example_runtime text_payload None) =
      Inl (chat_catch broken_transcoder_env example_runtime
             (Thrown None ''the transcoder failed''))"
    using chat_failures_rethrown [where env = broken_transcoder_env and this = example_runtime
        and payload = text_payload and options = None and s = "[]"
        and e = "Thrown None ''the transcoder failed''"]
      example_streams(1)
    by (simp add: Let_def broken_transcoder_env_def answering_env_def refusing_env_def)
  have response: "fst (chat broken_response_env example_runtime tools_payload None) =
      Inl (chat_catch broken_response_env example_runtime (Thrown None ''no response''))"
    using chat_failures_rethrown [where env = broken_response_env and this = example_runtime
        and payload = tools_payload and options = None and data = example_completion
        and synthesized = synthesized and e = "Thrown None ''no response''"]
      example_streams(2) built
    by (simp add: Let_def broken_response_env_def answering_env_def refusing_env_def)
  have tags: "endpoint (chat_catch broken_response_env example_runtime
        (Thrown None ''no response'')) = DEFAULT_BASE_URL"
    "provider (chat_catch broken_response_env example_runtime
        (Thrown None ''no response'')) = Qwen"
    using chat_failures_rethrown [where env = broken_response_env and this = example_runtime
        and payload = tools_payload and options = None
        and err = "chat_catch broken_response_env example_runtime (Thrown None ''no response'')"]
      response
    by (simp_all add: Let_def example_runtime_def)
  show ?thesis using refused transcoder response tags by simp
qed

text \<open>
  Claim C8: what \<^verbatim>\<open>chat\<close> returns or throws does not depend on the debug toggle nor on
  what the debug sink does: for every payload the outcome is the same under any value of
  \<^verbatim>\<open>DEBUG_QWEN_CHAT_COMPLETION\<close> and any behaviour of \<^verbatim>\<open>debugStream\<close>, failing or
  not. Only the console can differ.
\<close>

theorem debug_noninterference:
  "fst (chat (env\<lparr>DEBUG_QWEN_CHAT_COMPLETION := toggle, debugStream := sink\<rparr>)
          this payload options) =
   fst (chat env this payload options)"
  by (simp add: chat_of_try chat_try_debug_free chat_catch_debug_free split: sum.splits)

theorem debug_noninterference_witness:
  "fst (chat (answering_env\<lparr>DEBUG_QWEN_CHAT_COMPLETION := Some ''1'',
                            debugStream := failing_sink\<rparr>)
          example_runtime text_payload None) = Inr (ClientStream []) \<and>
   fst (chat answering_env example_runtime text_payload None) = Inr (ClientStream [])"
  using debug_noninterference [where env = answering_env and toggle = "Some ''1''"
          and sink = failing_sink and this = example_runtime and payload = text_payload
          and options = None]
        answered_chat
  by simp

section \<open>Facts about construction and the catalog\<close>

text \<open>
  Claim C7: constructing the runtime without an API key (undefined, or empty, which is
  what \<^verbatim>\<open>!apiKey\<close> tests) throws \<^verbatim>\<open>InvalidProviderAPIKey\<close> and builds no client; with
  a key it succeeds and the runtime's base URL is the client's. That URL is the default
  \<^verbatim>\<open>DEFAULT_BASE_URL\<close> when the options give none, the given URL when it is a
  non-empty string, and the client's own endpoint when the options give \<^verbatim>\<open>null\<close> or
  the empty string.
\<close>

theorem constructor_contract:
  "(ClientOptions.apiKey opts = None \<or> ClientOptions.apiKey opts = Some [] \<longrightarrow>
      LobeQwenAI_constructor opts = Inl (createError InvalidProviderAPIKey None)) \<and>
   (ClientOptions.apiKey opts = Some key \<and> key \<noteq> [] \<longrightarrow>
      (\<exists>this. LobeQwenAI_constructor opts = Inr this \<and>
         OpenAI.apiKey (client this) = key \<and>
         LobeQwenAI.baseURL this = OpenAI.baseURL (client this) \<and>
         LobeQwenAI.baseURL this =
           (case ClientOptions.baseURL opts of
              Absent \<Rightarrow> DEFAULT_BASE_URL
            | Null \<Rightarrow> OPENAI_BASE_URL
            | Given url \<Rightarrow> if url = [] then OPENAI_BASE_URL else url)))"
  by (auto simp: LobeQwenAI_constructor_def new_OpenAI_def DEFAULT_BASE_URL_def
      split: option.splits nullable.splits)

theorem constructor_contract_witness:
  "LobeQwenAI_constructor \<lparr>ClientOptions.apiKey = None, ClientOptions.baseURL = Absent, res = ()\<rparr>
     = Inl (createError InvalidProviderAPIKey None) \<and>
   (\<exists>this. LobeQwenAI_constructor
        \<lparr>ClientOptions.apiKey = Some ''sk-test'', ClientOptions.baseURL = Absent, res = ()\<rparr>
        = Inr this \<and> LobeQwenAI.baseURL this = DEFAULT_BASE_URL) \<and>
   (\<exists>this. LobeQwenAI_constructor
        \<lparr>ClientOptions.apiKey = Some ''sk-test'', ClientOptions.baseURL = Given [], res = ()\<rparr>
        = Inr this \<and> LobeQwenAI.baseURL this = OPENAI_BASE_URL)"
  using constructor_contract
          [of "\<lparr>ClientOptions.apiKey = None, ClientOptions.baseURL = Absent, res = ()\<rparr>"
              "''sk-test''"]
        constructor_contract
          [of "\<lparr>ClientOptions.apiKey = Some ''sk-test'', ClientOptions.baseURL = Absent,
                res = ()\<rparr>"
              "''sk-test''"]
        constructor_contract
          [of "\<lparr>ClientOptions.apiKey = Some ''sk-test'', ClientOptions.baseURL = Given [],
                res = ()\<rparr>"
              "''sk-test''"]
  by auto

text \<open>
  Claim C9: \<^verbatim>\<open>models()\<close> returns the catalog's \<^verbatim>\<open>chatModels\<close> list as it is, and
  leaves the catalog and the runtime as they were.
\<close>

theorem models_catalog:
  "models (Qwen_card, this) = (chatModels Qwen_card, (Qwen_card, this))"
  by (simp add: models_def)

theorem models_catalog_witness:
  "fst (models (Stepfun, example_runtime)) = chatModels Stepfun \<and>
   length (fst (models (Stepfun, example_runtime))) = 5 \<and>
   snd (models (Stepfun, example_runtime)) = (Stepfun, example_runtime)"
  using models_catalog [of Stepfun example_runtime] by (simp add: Stepfun_def)

end
